theory Spec2Isabelle
  imports Main "HOL-Library.Word"
begin

section \<open>The Pomelo connector (connector.go)\<close>

text \<open>
  A shallow embedding of \<^verbatim>\<open>connector.go\<close>. The Go struct \<^verbatim>\<open>Connector\<close> is a record that
  every operation takes and returns. The packages \<^verbatim>\<open>codec\<close>, \<^verbatim>\<open>message\<close> and \<^verbatim>\<open>packet\<close>, the
  JSON decoder and the dialers are collaborators whose code is not part of the file: their
  functions are the fields of the record \<open>Codecs\<close>, a parameter of every operation that calls
  them, and every general theorem holds for all of them.

  Go's \<^verbatim>\<open>error\<close> is \<open>error option\<close>, \<open>None\<close> being \<^verbatim>\<open>nil\<close>. A \<^verbatim>\<open>[]byte\<close> field that the
  code compares with \<^verbatim>\<open>nil\<close> is a \<open>bytes option\<close>. The type \<^verbatim>\<open>uint\<close> of the message id is
  \<open>'w word\<close>, for any width \<open>'w\<close> (32 or 64 in Go), so that \<^verbatim>\<open>c.mid++\<close> wraps around.
\<close>

type_synonym bytes = "8 word list"

datatype error =
  errorString string  \<comment> \<open>\<^verbatim>\<open>errors.New(s)\<close>, made by the connector itself\<close>
| extError string  \<comment> \<open>an error value made by a collaborator\<close>

text \<open>\<^verbatim>\<open>packet.Type\<close> and \<^verbatim>\<open>message.Type\<close>; the code only compares them.\<close>

datatype PacketType =
  packet_Handshake | packet_HandshakeAck | packet_Heartbeat | packet_Data | packet_Kick

datatype MessageType =
  message_Request | message_Notify | message_Response | message_Push

record Packet =
  Packet_Type :: PacketType
  Packet_Data :: bytes

record (overloaded) ('w::len) Message =
  Message_Type :: MessageType
  Message_Route :: string
  Message_ID :: "'w word"
  Message_Data :: bytes

record HeartbeatSysOpts =
  Heartbeat :: int

record DefaultHandshakePacket =
  Code :: int
  Sys :: HeartbeatSysOpts

text \<open>
  A callback is a Go function value whose body belongs to the caller. It is modelled by a
  name; calling it appends an entry to the connector's log \<open>calls\<close> and changes nothing else
  (a callback that calls back into the connector is outside the model). A \<^verbatim>\<open>nil\<close> function
  value is \<open>None\<close>.
\<close>

type_synonym Callback = nat
type_synonym ConnectedCallback = nat

datatype Call =
  Invoke Callback bytes  \<comment> \<open>\<^verbatim>\<open>cb(msg.Data)\<close>\<close>
| CallConnected ConnectedCallback  \<comment> \<open>\<^verbatim>\<open>c.connectedCallback()\<close>\<close>

datatype Transport = NoConn | ConnOpen | ConnClosed

record (overloaded) ('w::len) Connector =
  conn :: Transport
  mid :: "'w word"
  connecting :: bool
  die :: nat  \<comment> \<open>how many times a byte was sent on the channel \<^verbatim>\<open>die\<close>\<close>
  chSend :: "bytes list"  \<comment> \<open>every buffer put on the send queue, oldest first\<close>
  connectedCallback :: "ConnectedCallback option"
  handshakeData :: "bytes option"
  handshakeAckData :: "bytes option"
  heartbeatData :: "bytes option"
  events :: "string \<rightharpoonup> Callback option"
  responses :: "'w word \<rightharpoonup> Callback"
  calls :: "Call list"  \<comment> \<open>observation: the callbacks called so far, oldest first\<close>
  tickers :: nat  \<comment> \<open>observation: heartbeat goroutines that have not returned\<close>
  heartbeats :: nat  \<comment> \<open>observation: heartbeat frames put on the send queue by a ticker\<close>

record (overloaded) ('w::len) Codecs =
  json_Unmarshal :: "bytes \<Rightarrow> error + DefaultHandshakePacket"
  message_Encode :: "'w Message \<Rightarrow> error + bytes"
  message_Decode :: "bytes \<Rightarrow> error + 'w Message"
  codec_Encode :: "PacketType \<Rightarrow> bytes \<Rightarrow> error + bytes"
  Dial :: "string \<Rightarrow> bool \<Rightarrow> error option"

text \<open>
  What a step of the program leaves behind: the connector, or the end of the host process
  with an exit status (\<^verbatim>\<open>log.Fatal\<close> calls \<^verbatim>\<open>os.Exit(1)\<close>; a panic that nothing recovers
  ends the process with status 2).
\<close>

datatype 'a proc = Running 'a | Exited nat

subsection \<open>Setters\<close>

text \<open>
  The argument of \<^verbatim>\<open>SetHandshake\<close> is the result of \<^verbatim>\<open>json.Marshal\<close> on the value
  passed; for the other two setters it is \<open>None\<close> when the value passed is \<^verbatim>\<open>nil\<close>. The
  assignment \<^verbatim>\<open>c.handshakeData, err = codec.Encode(...)\<close> stores the result also when it
  comes with an error, and the buffer is then \<^verbatim>\<open>nil\<close>.
\<close>

definition SetHandshake ::
  "('w::len) Codecs \<Rightarrow> error + bytes \<Rightarrow> 'w Connector \<Rightarrow> error option \<times> 'w Connector" where
  "SetHandshake env handshake c =
     (case handshake of
        Inl err \<Rightarrow> (Some err, c)
      | Inr data \<Rightarrow>
          (case codec_Encode env packet_Handshake data of
             Inl err \<Rightarrow> (Some err, c\<lparr>handshakeData := None\<rparr>)
           | Inr d \<Rightarrow> (None, c\<lparr>handshakeData := Some d\<rparr>)))"

definition SetHandshakeAck ::
  "('w::len) Codecs \<Rightarrow> (error + bytes) option \<Rightarrow> 'w Connector \<Rightarrow> error option \<times> 'w Connector" where
  "SetHandshakeAck env handshakeAck c =
     (case handshakeAck of
        None \<Rightarrow>
          (case codec_Encode env packet_HandshakeAck [] of
             Inl err \<Rightarrow> (Some err, c\<lparr>handshakeAckData := None\<rparr>)
           | Inr d \<Rightarrow> (None, c\<lparr>handshakeAckData := Some d\<rparr>))
      | Some (Inl err) \<Rightarrow> (Some err, c)
      | Some (Inr data) \<Rightarrow>
          (case codec_Encode env packet_HandshakeAck data of
             Inl err \<Rightarrow> (Some err, c\<lparr>handshakeAckData := None\<rparr>)
           | Inr d \<Rightarrow> (None, c\<lparr>handshakeAckData := Some d\<rparr>)))"

definition SetHeartBeat ::
  "('w::len) Codecs \<Rightarrow> (error + bytes) option \<Rightarrow> 'w Connector \<Rightarrow> error option \<times> 'w Connector" where
  "SetHeartBeat env heartbeat c =
     (case heartbeat of
        None \<Rightarrow>
          (case codec_Encode env packet_Heartbeat [] of
             Inl err \<Rightarrow> (Some err, c\<lparr>heartbeatData := None\<rparr>)
           | Inr d \<Rightarrow> (None, c\<lparr>heartbeatData := Some d\<rparr>))
      | Some (Inl err) \<Rightarrow> (Some err, c)
      | Some (Inr data) \<Rightarrow>
          (case codec_Encode env packet_Heartbeat data of
             Inl err \<Rightarrow> (Some err, c\<lparr>heartbeatData := None\<rparr>)
           | Inr d \<Rightarrow> (None, c\<lparr>heartbeatData := Some d\<rparr>)))"

definition Connected ::
  "ConnectedCallback option \<Rightarrow> ('w::len) Connector \<Rightarrow> 'w Connector" where
  "Connected cb c = c\<lparr>connectedCallback := cb\<rparr>"

subsection \<open>The send queue, the registries, Close\<close>

text \<open>
  \<^verbatim>\<open>send\<close> puts a buffer on the channel \<^verbatim>\<open>chSend\<close>, which the goroutine \<^verbatim>\<open>write\<close> drains
  onto the transport in the same order; the model keeps the buffers in the order in which
  they were put, and a send that has to wait for room on the channel is a send. A \<^verbatim>\<open>nil\<close>
  slice put on the queue is the empty buffer. \<^verbatim>\<open>Close\<close> sends on the channel \<^verbatim>\<open>die\<close>, which
  ends \<^verbatim>\<open>write\<close>.
\<close>

definition slice :: "bytes option \<Rightarrow> bytes" where
  "slice d = (case d of None \<Rightarrow> [] | Some b \<Rightarrow> b)"

definition send :: "bytes \<Rightarrow> ('w::len) Connector \<Rightarrow> 'w Connector" where
  "send data c = c\<lparr>chSend := chSend c @ [data]\<rparr>"

definition IsClosed :: "('w::len) Connector \<Rightarrow> bool" where
  "IsClosed c = (\<not> connecting c)"

definition Close :: "('w::len) Connector \<Rightarrow> 'w Connector" where
  "Close c =
     (if \<not> connecting c then c
      else c\<lparr>conn := ConnClosed, die := die c + 1, connecting := False\<rparr>)"

definition On :: "string \<Rightarrow> Callback option \<Rightarrow> ('w::len) Connector \<Rightarrow> 'w Connector" where
  "On event callback c = c\<lparr>events := (events c)(event \<mapsto> callback)\<rparr>"

definition eventHandler :: "('w::len) Connector \<Rightarrow> string \<Rightarrow> Callback option option" where
  "eventHandler c event = events c event"

definition responseHandler :: "('w::len) Connector \<Rightarrow> 'w word \<Rightarrow> Callback option" where
  "responseHandler c m = responses c m"

definition setResponseHandler ::
  "'w word \<Rightarrow> Callback option \<Rightarrow> ('w::len) Connector \<Rightarrow> 'w Connector" where
  "setResponseHandler m cb c =
     (case cb of
        None \<Rightarrow> c\<lparr>responses := (responses c)(m := None)\<rparr>
      | Some f \<Rightarrow> c\<lparr>responses := (responses c)(m \<mapsto> f)\<rparr>)"

subsection \<open>Request and Notify\<close>

definition sendMessage ::
  "('w::len) Codecs \<Rightarrow> 'w Message \<Rightarrow> 'w Connector \<Rightarrow> error option \<times> 'w Connector" where
  "sendMessage env msg c =
     (case message_Encode env msg of
        Inl err \<Rightarrow> (Some err, c)
      | Inr data \<Rightarrow>
          (case codec_Encode env packet_Data data of
             Inl err \<Rightarrow> (Some err, c)
           | Inr payload \<Rightarrow> (None, send payload (c\<lparr>mid := mid c + 1\<rparr>))))"

definition Request ::
  "('w::len) Codecs \<Rightarrow> string \<Rightarrow> bytes \<Rightarrow> Callback option \<Rightarrow> 'w Connector
     \<Rightarrow> error option \<times> 'w Connector" where
  "Request env route data callback c =
     (let msg = \<lparr>Message_Type = message_Request, Message_Route = route,
                  Message_ID = mid c, Message_Data = data\<rparr>;
          c1 = setResponseHandler (mid c) callback c
      in case sendMessage env msg c1 of
           (Some err, c2) \<Rightarrow> (Some err, setResponseHandler (mid c2) None c2)
         | (None, c2) \<Rightarrow> (None, c2))"

text \<open>The message of a Notify leaves \<^verbatim>\<open>ID\<close> at the zero value of \<^verbatim>\<open>uint\<close>.\<close>

definition Notify ::
  "('w::len) Codecs \<Rightarrow> string \<Rightarrow> bytes \<Rightarrow> 'w Connector \<Rightarrow> error option \<times> 'w Connector" where
  "Notify env route data c =
     sendMessage env \<lparr>Message_Type = message_Notify, Message_Route = route,
                       Message_ID = 0, Message_Data = data\<rparr> c"

subsection \<open>Inbound dispatch\<close>

text \<open>
  Calling a \<^verbatim>\<open>nil\<close> function value panics: \<^verbatim>\<open>On\<close> stores whatever it is given, so the
  Push branch can meet one; \<^verbatim>\<open>setResponseHandler\<close> never stores one.
\<close>

definition processMessage :: "('w::len) Message \<Rightarrow> 'w Connector \<Rightarrow> 'w Connector proc" where
  "processMessage msg c =
     (case Message_Type msg of
        message_Push \<Rightarrow>
          (case eventHandler c (Message_Route msg) of
             None \<Rightarrow> Running c
           | Some None \<Rightarrow> Exited 2
           | Some (Some cb) \<Rightarrow> Running (c\<lparr>calls := calls c @ [Invoke cb (Message_Data msg)]\<rparr>))
      | message_Response \<Rightarrow>
          (case responseHandler c (Message_ID msg) of
             None \<Rightarrow> Running c
           | Some cb \<Rightarrow>
               Running (setResponseHandler (Message_ID msg) None
                          (c\<lparr>calls := calls c @ [Invoke cb (Message_Data msg)]\<rparr>)))
      | _ \<Rightarrow> Running c)"

text \<open>
  \<^verbatim>\<open>time.Second * time.Duration(h)\<close> is a product of 64-bit signed integers, in
  nanoseconds, and wraps around; \<^verbatim>\<open>time.NewTicker\<close> panics on a duration that is not
  positive. The panic is raised in the goroutine just started and nothing recovers it, so it
  ends the process; the model lets it do so at once.
\<close>

definition tickerDuration :: "int \<Rightarrow> int" where
  "tickerDuration h = sint ((1000000000 :: 64 word) * word_of_int h)"

definition processPacket ::
  "('w::len) Codecs \<Rightarrow> Packet \<Rightarrow> 'w Connector \<Rightarrow> 'w Connector proc" where
  "processPacket env p c =
     (case Packet_Type p of
        packet_Handshake \<Rightarrow>
          (case json_Unmarshal env (Packet_Data p) of
             Inl err \<Rightarrow> Running (Close c)
           | Inr handshakeResp \<Rightarrow>
               if Code handshakeResp = 200 then
                 if tickerDuration (Heartbeat (Sys handshakeResp)) \<le> 0 then Exited 2
                 else
                   (let c1 = c\<lparr>tickers := tickers c + 1\<rparr>;
                        c2 = send (slice (handshakeAckData c1)) c1
                    in case connectedCallback c2 of
                         None \<Rightarrow> Running c2
                       | Some cb \<Rightarrow> Running (c2\<lparr>calls := calls c2 @ [CallConnected cb]\<rparr>))
               else Exited 1)
      | packet_Data \<Rightarrow>
          (case message_Decode env (Packet_Data p) of
             Inl err \<Rightarrow> Running c
           | Inr msg \<Rightarrow> processMessage msg c)
      | packet_Kick \<Rightarrow> Exited 1
      | _ \<Rightarrow> Running c)"

text \<open>The loop \<^verbatim>\<open>for i := range packets\<close> of \<^verbatim>\<open>read\<close>: it has no exit of its own.\<close>

fun processPackets ::
  "('w::len) Codecs \<Rightarrow> Packet list \<Rightarrow> 'w Connector \<Rightarrow> 'w Connector proc" where
  "processPackets env [] c = Running c"
| "processPackets env (p # ps) c =
     (case processPacket env p c of
        Exited n \<Rightarrow> Exited n
      | Running c1 \<Rightarrow> processPackets env ps c1)"

text \<open>One tick of a heartbeat goroutine (the body of \<^verbatim>\<open>for range ticker.C\<close>).\<close>

definition heartbeatTick :: "('w::len) Connector \<Rightarrow> 'w Connector" where
  "heartbeatTick c =
     (if tickers c = 0 then c
      else if IsClosed c then c\<lparr>tickers := tickers c - 1\<rparr>
      else (send (slice (heartbeatData c)) c)\<lparr>heartbeats := heartbeats c + 1\<rparr>)"

subsection \<open>The read loop and Run\<close>

text \<open>
  The loop of \<^verbatim>\<open>read\<close> runs in the goroutine that called \<^verbatim>\<open>Run\<close>, while tickers and callers
  of the API run in others. The model takes what happens as a list of events, in the order
  in which it happens: \<open>Recv\<close> is one iteration of the loop, with what \<^verbatim>\<open>conn.Read\<close> and
  \<^verbatim>\<open>codec.Decode\<close> give it; every other event is a step of another goroutine, taken between
  two iterations. Each event is atomic: interleavings inside an iteration or inside a call
  are outside the model. When the list is used up the loop is still waiting for the
  transport, and \<^verbatim>\<open>Run\<close> has not returned: that is the outcome \<open>Blocked\<close>.
\<close>

datatype Input =
  ReadErr error  \<comment> \<open>\<^verbatim>\<open>conn.Read\<close> returns an error\<close>
| DecodeErr error  \<comment> \<open>\<^verbatim>\<open>codec.Decode\<close> returns an error\<close>
| Decoded "Packet list"  \<comment> \<open>\<^verbatim>\<open>codec.Decode\<close> returns these packets\<close>

datatype Event =
  Recv Input
| Tick
| CallClose
| CallRequest string bytes "Callback option"
| CallNotify string bytes
| CallOn string "Callback option"

datatype 'a outcome =
  Blocked 'a  \<comment> \<open>the loop has not returned\<close>
| Returned "error option" 'a  \<comment> \<open>\<^verbatim>\<open>read\<close>, or \<^verbatim>\<open>Run\<close> before it, has returned this error\<close>
| Terminated nat  \<comment> \<open>the process has ended with this status\<close>

text \<open>A step of another goroutine; \<open>Recv\<close> is not one (the loop is not running).\<close>

definition concurrent :: "('w::len) Codecs \<Rightarrow> Event \<Rightarrow> 'w Connector \<Rightarrow> 'w Connector" where
  "concurrent env ev c =
     (case ev of
        Recv i \<Rightarrow> c
      | Tick \<Rightarrow> heartbeatTick c
      | CallClose \<Rightarrow> Close c
      | CallRequest route data callback \<Rightarrow> snd (Request env route data callback c)
      | CallNotify route data \<Rightarrow> snd (Notify env route data c)
      | CallOn event callback \<Rightarrow> On event callback c)"

fun read :: "('w::len) Codecs \<Rightarrow> Event list \<Rightarrow> 'w Connector \<Rightarrow> 'w Connector outcome" where
  "read env [] c = Blocked c"
| "read env (Recv i # evs) c =
     (if IsClosed c then Returned (Some (errorString ''read err: connector is closed'')) c
      else case i of
             ReadErr err \<Rightarrow> Returned (Some err) (Close c)
           | DecodeErr err \<Rightarrow> read env evs c
           | Decoded packets \<Rightarrow>
               (case processPackets env packets c of
                  Exited n \<Rightarrow> Terminated n
                | Running c1 \<Rightarrow> read env evs c1))"
| "read env (ev # evs) c = read env evs (concurrent env ev c)"

definition Run ::
  "('w::len) Codecs \<Rightarrow> string \<Rightarrow> bool \<Rightarrow> Event list \<Rightarrow> 'w Connector \<Rightarrow> 'w Connector outcome" where
  "Run env addr ws evs c =
     (case handshakeData c of
        None \<Rightarrow> Returned (Some (errorString ''handshake not defined'')) c
      | Some hs \<Rightarrow>
          (case (if handshakeAckData c = None then SetHandshakeAck env None c else (None, c)) of
             (Some err, c1) \<Rightarrow> Returned (Some err) c1
           | (None, c1) \<Rightarrow>
               (case (if heartbeatData c1 = None then SetHeartBeat env None c1 else (None, c1)) of
                  (Some err, c2) \<Rightarrow> Returned (Some err) c2
                | (None, c2) \<Rightarrow>
                    (case Dial env addr ws of
                       Some err \<Rightarrow> Returned (Some err) c2
                     | None \<Rightarrow>
                         read env evs (send hs (c2\<lparr>conn := ConnOpen, connecting := True\<rparr>))))))"

text \<open>The events that follow the return of \<^verbatim>\<open>Run\<close>, or that find no loop running.\<close>

fun afterwards :: "('w::len) Codecs \<Rightarrow> Event list \<Rightarrow> 'w Connector \<Rightarrow> 'w Connector" where
  "afterwards env [] c = c"
| "afterwards env (ev # evs) c = afterwards env evs (concurrent env ev c)"

subsection \<open>A fresh connector and a sample of the collaborators\<close>

text \<open>
  Modelled from the spec: the constructor of \<^verbatim>\<open>Connector\<close> is not in \<^verbatim>\<open>connector.go\<close>. The
  spec creates the connector empty, with no transport and both registries empty, and gives
  the first request the id 0.
\<close>

definition NewConnector :: "('w::len) Connector" where
  "NewConnector =
     \<lparr>conn = NoConn, mid = 0, connecting = False, die = 0, chSend = [],
      connectedCallback = None, handshakeData = None, handshakeAckData = None,
      heartbeatData = None, events = Map.empty, responses = Map.empty,
      calls = [], tickers = 0, heartbeats = 0\<rparr>"

text \<open>
  An instance of the collaborators, to run the model on concrete inputs. A handshake
  response is two bytes, the code in hundreds and the heartbeat interval; a message is its
  kind (2 for a Response, anything else for a Push of route \<open>onMembers\<close>), its id and its
  payload; a route longer than 255 bytes cannot be encoded; an empty address cannot be
  dialled.
\<close>

definition packetTag :: "PacketType \<Rightarrow> 8 word" where
  "packetTag t =
     (case t of packet_Handshake \<Rightarrow> 1 | packet_HandshakeAck \<Rightarrow> 2 | packet_Heartbeat \<Rightarrow> 3
      | packet_Data \<Rightarrow> 4 | packet_Kick \<Rightarrow> 5)"

definition messageTag :: "MessageType \<Rightarrow> 8 word" where
  "messageTag t =
     (case t of message_Request \<Rightarrow> 0 | message_Notify \<Rightarrow> 1 | message_Response \<Rightarrow> 2
      | message_Push \<Rightarrow> 3)"

definition sampleCodecs :: "('w::len) Codecs" where
  "sampleCodecs =
     \<lparr>json_Unmarshal =
        (\<lambda>d. case d of
                [k, h] \<Rightarrow> Inr \<lparr>Code = 100 * uint k, Sys = \<lparr>Heartbeat = uint h\<rparr>\<rparr>
              | _ \<Rightarrow> Inl (extError ''json'')),
      message_Encode =
        (\<lambda>m. if length (Message_Route m) > 255 then Inl (extError ''route'')
              else Inr (messageTag (Message_Type m) # ucast (Message_ID m) # Message_Data m)),
      message_Decode =
        (\<lambda>d. case d of
                t # i # rest \<Rightarrow>
                  Inr \<lparr>Message_Type = (if t = 2 then message_Response else message_Push),
                       Message_Route = ''onMembers'', Message_ID = ucast i,
                       Message_Data = rest\<rparr>
              | _ \<Rightarrow> Inl (extError ''message'')),
      codec_Encode = (\<lambda>t d. Inr (packetTag t # d)),
      Dial = (\<lambda>addr ws. if addr = [] then Some (extError ''dial'') else None)\<rparr>"

text \<open>
  A connector after \<^verbatim>\<open>SetHandshake\<close>, \<^verbatim>\<open>SetHandshakeAck\<close>, \<^verbatim>\<open>SetHeartBeat\<close> and
  \<^verbatim>\<open>Connected\<close>, ready for \<^verbatim>\<open>Run\<close>.
\<close>

definition configured :: "('w::len) Connector" where
  "configured =
     NewConnector\<lparr>handshakeData := Some [1], handshakeAckData := Some [2],
       heartbeatData := Some [3], connectedCallback := Some 9\<rparr>"


subsection \<open>Predicates on inputs and on the log\<close>

text \<open>A Handshake frame whose payload decodes to the status code 200.\<close>

definition handshakeOK :: "('w::len) Codecs \<Rightarrow> Packet \<Rightarrow> bool" where
  "handshakeOK env p =
     (Packet_Type p = packet_Handshake \<and>
      (case json_Unmarshal env (Packet_Data p) of
         Inl err \<Rightarrow> False
       | Inr handshakeResp \<Rightarrow> Code handshakeResp = 200))"

text \<open>An iteration of the loop that decodes such a frame.\<close>

definition handshakeEvent :: "('w::len) Codecs \<Rightarrow> Event \<Rightarrow> bool" where
  "handshakeEvent env ev =
     (case ev of
        Recv (Decoded packets) \<Rightarrow> list_ex (handshakeOK env) packets
      | _ \<Rightarrow> False)"

text \<open>How many times the connected callback has been called.\<close>

definition isConnected :: "Call \<Rightarrow> bool" where
  "isConnected x = (case x of CallConnected cb \<Rightarrow> True | Invoke cb d \<Rightarrow> False)"

definition connectedCount :: "('w::len) Connector \<Rightarrow> nat" where
  "connectedCount c = length (filter isConnected (calls c))"

text \<open>
  A Data frame that decodes to a Response with the id \<open>i\<close>, an iteration of the loop that
  decodes such a frame, and the calls that send a message.
\<close>

definition answers :: "('w::len) Codecs \<Rightarrow> 'w word \<Rightarrow> Packet \<Rightarrow> bool" where
  "answers env i p =
     (Packet_Type p = packet_Data \<and>
      (case message_Decode env (Packet_Data p) of
         Inl err \<Rightarrow> False
       | Inr msg \<Rightarrow> Message_Type msg = message_Response \<and> Message_ID msg = i))"

definition answerEvent :: "('w::len) Codecs \<Rightarrow> 'w word \<Rightarrow> Event \<Rightarrow> bool" where
  "answerEvent env i ev =
     (case ev of
        Recv (Decoded packets) \<Rightarrow> list_ex (answers env i) packets
      | _ \<Rightarrow> False)"

definition isSend :: "Event \<Rightarrow> bool" where
  "isSend ev =
     (case ev of
        CallRequest route data callback \<Rightarrow> True
      | CallNotify route data \<Rightarrow> True
      | _ \<Rightarrow> False)"

section \<open>Request, Notify and the message id\<close>

text \<open>What \<^verbatim>\<open>sendMessage\<close> and \<^verbatim>\<open>Request\<close> leave behind, on success and on failure.\<close>

lemma sendMessage_ok:
  "sendMessage env msg c = (None, c') \<Longrightarrow>
     \<exists>d p. message_Encode env msg = Inr d \<and> codec_Encode env packet_Data d = Inr p \<and>
           c' = c\<lparr>mid := mid c + 1, chSend := chSend c @ [p]\<rparr>"
  by (auto simp: sendMessage_def send_def split: sum.splits)

lemma sendMessage_err:
  "sendMessage env msg c = (Some e, c') \<Longrightarrow>
     c' = c \<and> (message_Encode env msg = Inl e \<or>
       (\<exists>d. message_Encode env msg = Inr d \<and> codec_Encode env packet_Data d = Inl e))"
  by (auto simp: sendMessage_def send_def split: sum.splits)

lemma Request_ok:
  "Request env route data callback c = (None, c') \<Longrightarrow>
     \<exists>d p. message_Encode env \<lparr>Message_Type = message_Request, Message_Route = route,
                Message_ID = mid c, Message_Data = data\<rparr> = Inr d \<and>
           codec_Encode env packet_Data d = Inr p \<and>
           c' = c\<lparr>mid := mid c + 1, chSend := chSend c @ [p],
                  responses := (responses c)(mid c := callback)\<rparr>"
  unfolding Request_def Let_def
  by (auto split: prod.splits option.splits dest!: sendMessage_ok sendMessage_err
      simp: setResponseHandler_def)

lemma Request_err:
  "Request env route data callback c = (Some e, c') \<Longrightarrow>
     c' = c\<lparr>responses := (responses c)(mid c := None)\<rparr> \<and>
     (message_Encode env \<lparr>Message_Type = message_Request, Message_Route = route,
                Message_ID = mid c, Message_Data = data\<rparr> = Inl e \<or>
       (\<exists>d. message_Encode env \<lparr>Message_Type = message_Request, Message_Route = route,
                Message_ID = mid c, Message_Data = data\<rparr> = Inr d \<and>
            codec_Encode env packet_Data d = Inl e))"
  unfolding Request_def Let_def
  by (auto split: prod.splits option.splits dest!: sendMessage_ok sendMessage_err
      simp: setResponseHandler_def)

text \<open>
  C4, as the code has it. A call to \<^verbatim>\<open>Request\<close> that succeeds advances the message id by
  exactly one (and the new id differs from the old one, also at the wrap-around); a call
  that fails, which is an encoding failure of the message or of the frame, leaves the
  message id as it was.
\<close>

theorem Request_mid:
  "(fst (Request env route data callback c) = None \<longrightarrow>
      mid (snd (Request env route data callback c)) = mid c + 1 \<and> mid c + 1 \<noteq> mid c) \<and>
   (fst (Request env route data callback c) \<noteq> None \<longrightarrow>
      mid (snd (Request env route data callback c)) = mid c)"
proof (cases "Request env route data callback c")
  case (Pair r c')
  show ?thesis
  proof (cases r)
    case None
    with Pair Request_ok [of env route data callback c c'] show ?thesis by auto
  next
    case (Some e)
    with Pair Request_err [of env route data callback c e c'] show ?thesis by auto
  qed
qed


theorem Request_mid_witness:
  "fst (Request sampleCodecs ''room.join'' [1] (Some 7) (NewConnector :: 64 Connector)) = None \<and>
   mid (snd (Request sampleCodecs ''room.join'' [1] (Some 7) (NewConnector :: 64 Connector))) = 1 \<and>
   fst (Request sampleCodecs (replicate 256 CHR ''a'') [1] (Some 7) (NewConnector :: 64 Connector))
     \<noteq> None \<and>
   mid (snd (Request sampleCodecs (replicate 256 CHR ''a'') [1] (Some 7)
     (NewConnector :: 64 Connector))) = 0"
  using Request_mid [of sampleCodecs "''room.join''" "[1]" "Some 7" "NewConnector :: 64 Connector"]
    Request_mid [of sampleCodecs "replicate 256 CHR ''a''" "[1]" "Some 7"
      "NewConnector :: 64 Connector"]
  by (simp add: Request_def sendMessage_def sampleCodecs_def setResponseHandler_def send_def
      NewConnector_def Let_def)

text \<open>
  C4 as stated fails: a \<^verbatim>\<open>Request\<close> whose route cannot be encoded returns the error and
  the message id has not advanced.
\<close>

theorem Request_mid_counterexample:
  "fst (Request sampleCodecs (replicate 256 CHR ''a'') [1] (Some 7) (NewConnector :: 64 Connector))
     = Some (extError ''route'') \<and>
   mid (snd (Request sampleCodecs (replicate 256 CHR ''a'') [1] (Some 7)
     (NewConnector :: 64 Connector))) \<noteq> mid (NewConnector :: 64 Connector) + 1"
  by (simp add: Request_def sendMessage_def sampleCodecs_def setResponseHandler_def send_def
      NewConnector_def Let_def)

text \<open>The Response branch of \<^verbatim>\<open>processMessage\<close>.\<close>

lemma processMessage_Response:
  "processMessage \<lparr>Message_Type = message_Response, Message_Route = r, Message_ID = i,
       Message_Data = p\<rparr> c =
     (case responses c i of
        None \<Rightarrow> Running c
      | Some cb \<Rightarrow> Running (c\<lparr>calls := calls c @ [Invoke cb p],
                               responses := (responses c)(i := None)\<rparr>))"
  by (simp add: processMessage_def responseHandler_def setResponseHandler_def
      split: option.splits)

text \<open>
  C6. When \<^verbatim>\<open>Request\<close> returns an error, the registry has no entry for the id of that
  request (the connector is the one before the call, with that entry removed), the error
  returned is the one of the message codec or of the frame codec, and a Response that carries
  that id calls no callback and changes nothing.
\<close>

theorem Request_failure_rollback:
  "Request env route data callback c = (Some err, c') \<Longrightarrow>
     responses c' (mid c) = None \<and>
     c' = c\<lparr>responses := (responses c)(mid c := None)\<rparr> \<and>
     (message_Encode env \<lparr>Message_Type = message_Request, Message_Route = route,
          Message_ID = mid c, Message_Data = data\<rparr> = Inl err \<or>
      (\<exists>d. message_Encode env \<lparr>Message_Type = message_Request, Message_Route = route,
          Message_ID = mid c, Message_Data = data\<rparr> = Inr d \<and>
        codec_Encode env packet_Data d = Inl err)) \<and>
     processMessage \<lparr>Message_Type = message_Response, Message_Route = r, Message_ID = mid c,
       Message_Data = p\<rparr> c' = Running c'"
proof -
  assume a: "Request env route data callback c = (Some err, c')"
  from Request_err [OF a] have c': "c' = c\<lparr>responses := (responses c)(mid c := None)\<rparr>"
    and e: "message_Encode env \<lparr>Message_Type = message_Request, Message_Route = route,
          Message_ID = mid c, Message_Data = data\<rparr> = Inl err \<or>
      (\<exists>d. message_Encode env \<lparr>Message_Type = message_Request, Message_Route = route,
          Message_ID = mid c, Message_Data = data\<rparr> = Inr d \<and>
        codec_Encode env packet_Data d = Inl err)"
    by blast+
  from c' have n: "responses c' (mid c) = None" by simp
  from c' have m: "mid c' = mid c" by simp
  have "processMessage \<lparr>Message_Type = message_Response, Message_Route = r, Message_ID = mid c,
       Message_Data = p\<rparr> c' = Running c'"
    using n by (simp add: processMessage_Response)
  with c' e n show ?thesis by blast
qed

theorem Request_failure_rollback_witness:
  "Request sampleCodecs (replicate 256 CHR ''a'') [1] (Some 7) (NewConnector :: 64 Connector)
     = (Some (extError ''route''), NewConnector) \<and>
   responses (NewConnector :: 64 Connector) 0 = None \<and>
   processMessage \<lparr>Message_Type = message_Response, Message_Route = [], Message_ID = 0,
       Message_Data = [5]\<rparr> (NewConnector :: 64 Connector) = Running NewConnector"
proof -
  have r: "Request sampleCodecs (replicate 256 CHR ''a'') [1] (Some 7)
      (NewConnector :: 64 Connector) = (Some (extError ''route''), NewConnector)"
    by (simp add: Request_def sendMessage_def sampleCodecs_def setResponseHandler_def
        NewConnector_def Let_def)
  from Request_failure_rollback [OF r, of "[]" "[5]"] r show ?thesis
    by (simp add: NewConnector_def)
qed

text \<open>
  C10. A \<^verbatim>\<open>Notify\<close> that succeeds advances the message id by one and registers nothing, so
  the \<^verbatim>\<open>Request\<close> that follows it is sent and registered under the id after the next one:
  the id of a request counts the notifications sent before it as well.
\<close>

theorem Notify_advances_mid:
  "Notify env route data c = (None, c1) \<Longrightarrow>
     mid c1 = mid c + 1 \<and> mid c1 \<noteq> mid c \<and> responses c1 = responses c \<and>
     (Request env route' data' (Some cb) c1 = (None, c2) \<longrightarrow>
        responses c2 (mid c + 1) = Some cb \<and>
        (\<exists>d. message_Encode env \<lparr>Message_Type = message_Request, Message_Route = route',
            Message_ID = mid c + 1, Message_Data = data'\<rparr> = Inr d))"
proof -
  assume a: "Notify env route data c = (None, c1)"
  then obtain p where c1: "c1 = c\<lparr>mid := mid c + 1, chSend := chSend c @ [p]\<rparr>"
    unfolding Notify_def by (blast dest: sendMessage_ok)
  have "responses c2 (mid c + 1) = Some cb \<and>
        (\<exists>d. message_Encode env \<lparr>Message_Type = message_Request, Message_Route = route',
            Message_ID = mid c + 1, Message_Data = data'\<rparr> = Inr d)"
    if b: "Request env route' data' (Some cb) c1 = (None, c2)"
    using Request_ok [OF b] c1 by auto
  with c1 show ?thesis by simp
qed

theorem Notify_advances_mid_witness:
  "Notify sampleCodecs ''chat.say'' [1] (NewConnector :: 64 Connector)
     = (None, NewConnector\<lparr>mid := 1, chSend := [[4, 1, 0, 1]]\<rparr>) \<and>
   fst (Request sampleCodecs ''room.join'' [2] (Some 7)
     (NewConnector\<lparr>mid := 1, chSend := [[4, 1, 0, 1]]\<rparr> :: 64 Connector)) = None \<and>
   responses (snd (Request sampleCodecs ''room.join'' [2] (Some 7)
     (NewConnector\<lparr>mid := 1, chSend := [[4, 1, 0, 1]]\<rparr> :: 64 Connector))) 1 = Some 7 \<and>
   responses (snd (Request sampleCodecs ''room.join'' [2] (Some 7)
     (NewConnector\<lparr>mid := 1, chSend := [[4, 1, 0, 1]]\<rparr> :: 64 Connector))) 0 = None"
proof -
  have n: "Notify sampleCodecs ''chat.say'' [1] (NewConnector :: 64 Connector)
     = (None, NewConnector\<lparr>mid := 1, chSend := [[4, 1, 0, 1]]\<rparr>)"
    by (simp add: Notify_def sendMessage_def sampleCodecs_def send_def NewConnector_def
        packetTag_def messageTag_def)
  have r: "Request sampleCodecs ''room.join'' [2] (Some 7)
      (NewConnector\<lparr>mid := 1, chSend := [[4, 1, 0, 1]]\<rparr> :: 64 Connector)
     = (None, NewConnector\<lparr>mid := 2, chSend := [[4, 1, 0, 1], [4, 0, 1, 2]],
          responses := [1 \<mapsto> 7]\<rparr>)"
    by (simp add: Request_def sendMessage_def sampleCodecs_def send_def NewConnector_def
        packetTag_def messageTag_def setResponseHandler_def Let_def)
  from Notify_advances_mid [OF n, of "''room.join''" "[2]" 7] n r show ?thesis
    by (simp add: NewConnector_def)
qed

section \<open>Invariants of the events\<close>

text \<open>
  What the calls, the ticks and the frames leave unchanged: the fields that the claims
  about heartbeats and about the connected callback depend on.
\<close>

lemma Request_fields:
  "connecting (snd (Request env route data callback c)) = connecting c"
  "tickers (snd (Request env route data callback c)) = tickers c"
  "heartbeats (snd (Request env route data callback c)) = heartbeats c"
  "calls (snd (Request env route data callback c)) = calls c"
  "connectedCallback (snd (Request env route data callback c)) = connectedCallback c"
proof -
  obtain r c' where R: "Request env route data callback c = (r, c')"
    by (cases "Request env route data callback c")
  have "connecting c' = connecting c \<and> tickers c' = tickers c \<and> heartbeats c' = heartbeats c \<and>
        calls c' = calls c \<and> connectedCallback c' = connectedCallback c"
  proof (cases r)
    case None
    with R Request_ok [of env route data callback c c'] show ?thesis by auto
  next
    case (Some e)
    with R Request_err [of env route data callback c e c'] show ?thesis by auto
  qed
  with R show "connecting (snd (Request env route data callback c)) = connecting c"
    "tickers (snd (Request env route data callback c)) = tickers c"
    "heartbeats (snd (Request env route data callback c)) = heartbeats c"
    "calls (snd (Request env route data callback c)) = calls c"
    "connectedCallback (snd (Request env route data callback c)) = connectedCallback c"
    by simp_all
qed

lemma Notify_fields:
  "connecting (snd (Notify env route data c)) = connecting c"
  "tickers (snd (Notify env route data c)) = tickers c"
  "heartbeats (snd (Notify env route data c)) = heartbeats c"
  "calls (snd (Notify env route data c)) = calls c"
  "connectedCallback (snd (Notify env route data c)) = connectedCallback c"
  by (simp_all add: Notify_def sendMessage_def send_def split: sum.splits)

lemma concurrent_closed:
  "\<not> connecting c \<Longrightarrow>
     \<not> connecting (concurrent env ev c) \<and> heartbeats (concurrent env ev c) = heartbeats c"
  by (cases ev)
    (simp_all add: concurrent_def heartbeatTick_def IsClosed_def Close_def On_def
      Request_fields Notify_fields)

lemma concurrent_no_ticker:
  "tickers c = 0 \<Longrightarrow>
     tickers (concurrent env ev c) = 0 \<and> heartbeats (concurrent env ev c) = heartbeats c"
  by (cases ev)
    (simp_all add: concurrent_def heartbeatTick_def IsClosed_def Close_def On_def
      Request_fields Notify_fields)

lemma processMessage_fields:
  "processMessage msg c = Running c' \<Longrightarrow>
     connecting c' = connecting c \<and> tickers c' = tickers c \<and> heartbeats c' = heartbeats c \<and>
     connectedCallback c' = connectedCallback c \<and> connectedCount c' = connectedCount c"
  by (auto simp: processMessage_def eventHandler_def responseHandler_def setResponseHandler_def
      connectedCount_def isConnected_def
      split: MessageType.splits option.splits)

lemma processPacket_heartbeats:
  "processPacket env p c = Running c' \<Longrightarrow>
     heartbeats c' = heartbeats c \<and> (\<not> connecting c \<longrightarrow> \<not> connecting c') \<and>
     connectedCallback c' = connectedCallback c"
  by (auto simp: processPacket_def Close_def send_def Let_def
      split: PacketType.splits sum.splits if_splits option.splits
      dest: processMessage_fields)

lemma processPacket_tickers:
  "processPacket env p c = Running c' \<Longrightarrow> \<not> handshakeOK env p \<Longrightarrow> tickers c' = tickers c"
  by (auto simp: processPacket_def Close_def send_def Let_def handshakeOK_def
      split: PacketType.splits sum.splits if_splits option.splits
      dest: processMessage_fields)

lemma processPacket_connected:
  "processPacket env p c = Running c' \<Longrightarrow>
     connectedCount c' =
       connectedCount c + (if handshakeOK env p \<and> connectedCallback c \<noteq> None then 1 else 0)"
  by (auto simp: processPacket_def Close_def send_def Let_def handshakeOK_def
      connectedCount_def isConnected_def
      split: PacketType.splits sum.splits if_splits option.splits
      dest: processMessage_fields)

lemma processPackets_heartbeats:
  "processPackets env ps c = Running c' \<Longrightarrow>
     heartbeats c' = heartbeats c \<and> (\<not> connecting c \<longrightarrow> \<not> connecting c') \<and>
     connectedCallback c' = connectedCallback c"
proof (induction ps arbitrary: c)
  case Nil
  then show ?case by simp
next
  case (Cons p ps)
  then obtain c1 where 1: "processPacket env p c = Running c1"
    and 2: "processPackets env ps c1 = Running c'"
    by (auto split: proc.splits)
  from processPacket_heartbeats [OF 1] Cons.IH [OF 2] show ?case by simp
qed

lemma processPackets_tickers:
  "processPackets env ps c = Running c' \<Longrightarrow> \<not> list_ex (handshakeOK env) ps \<Longrightarrow>
     tickers c' = tickers c"
proof (induction ps arbitrary: c)
  case Nil
  then show ?case by simp
next
  case (Cons p ps)
  then obtain c1 where 1: "processPacket env p c = Running c1"
    and 2: "processPackets env ps c1 = Running c'"
    by (auto split: proc.splits)
  from Cons.prems have "\<not> handshakeOK env p" "\<not> list_ex (handshakeOK env) ps" by simp_all
  with processPacket_tickers [OF 1] Cons.IH [OF 2] show ?case by simp
qed


lemma read_concurrent:
  "\<forall>i. ev \<noteq> Recv i \<Longrightarrow> read env (ev # evs) c = read env evs (concurrent env ev c)"
  by (cases ev) simp_all

lemma read_closed:
  "\<not> connecting c \<Longrightarrow> read env evs c = Blocked c' \<or> read env evs c = Returned r c' \<Longrightarrow>
     heartbeats c' = heartbeats c \<and> \<not> connecting c'"
proof (induction evs arbitrary: c)
  case Nil
  then show ?case by auto
next
  case (Cons ev evs)
  show ?case
  proof (cases "\<exists>i. ev = Recv i")
    case True
    with Cons.prems show ?thesis by (auto simp: IsClosed_def)
  next
    case False
    then have "read env (ev # evs) c = read env evs (concurrent env ev c)"
      by (simp add: read_concurrent)
    with Cons.prems(2) Cons.IH [of "concurrent env ev c"]
      concurrent_closed [OF Cons.prems(1), of env ev]
    show ?thesis by simp
  qed
qed

lemma read_no_handshake:
  "tickers c = 0 \<Longrightarrow> \<forall>ev\<in>set evs. \<not> handshakeEvent env ev \<Longrightarrow>
     read env evs c = Blocked c' \<or> read env evs c = Returned r c' \<Longrightarrow>
     heartbeats c' = heartbeats c \<and> tickers c' = 0"
proof (induction evs arbitrary: c)
  case Nil
  then show ?case by auto
next
  case (Cons ev evs)
  from Cons.prems(2) have rest: "\<forall>ev\<in>set evs. \<not> handshakeEvent env ev" by simp
  show ?case
  proof (cases "\<exists>i. ev = Recv i")
    case False
    then have "read env (ev # evs) c = read env evs (concurrent env ev c)"
      by (simp add: read_concurrent)
    with Cons.prems(3) Cons.IH [of "concurrent env ev c", OF _ rest]
      concurrent_no_ticker [OF Cons.prems(1), of env ev]
    show ?thesis by simp
  next
    case True
    then obtain i where ev: "ev = Recv i" by blast
    show ?thesis
    proof (cases "IsClosed c")
      case True
      with ev Cons.prems show ?thesis by auto
    next
      case notClosed: False
      show ?thesis
      proof (cases i)
        case (ReadErr e)
        with ev notClosed Cons.prems show ?thesis by (auto simp: Close_def)
      next
        case (DecodeErr e)
        with ev notClosed Cons.prems(3) have "read env evs c = Blocked c' \<or> read env evs c = Returned r c'"
          by simp
        with Cons.IH [OF Cons.prems(1) rest] show ?thesis by simp
      next
        case (Decoded ps)
        with ev Cons.prems(2) have nh: "\<not> list_ex (handshakeOK env) ps"
          by (simp add: handshakeEvent_def)
        from ev notClosed Decoded Cons.prems(3) obtain c1 where
          1: "processPackets env ps c = Running c1" and
          2: "read env evs c1 = Blocked c' \<or> read env evs c1 = Returned r c'"
          by (auto split: proc.splits)
        from processPackets_tickers [OF 1 nh] processPackets_heartbeats [OF 1] Cons.prems(1)
        have "tickers c1 = 0" "heartbeats c1 = heartbeats c" by simp_all
        with Cons.IH [OF _ rest 2] show ?thesis by simp
      qed
    qed
  qed
qed

lemma read_returned:
  "read env evs c = Returned r c' \<Longrightarrow> r \<noteq> None \<and> \<not> connecting c'"
proof (induction evs arbitrary: c)
  case Nil
  then show ?case by simp
next
  case (Cons ev evs)
  show ?case
  proof (cases "\<exists>i. ev = Recv i")
    case False
    then have "read env (ev # evs) c = read env evs (concurrent env ev c)"
      by (simp add: read_concurrent)
    with Cons show ?thesis by simp
  next
    case True
    then obtain i where ev: "ev = Recv i" by blast
    show ?thesis
    proof (cases "IsClosed c")
      case True
      with ev Cons.prems show ?thesis by (auto simp: IsClosed_def)
    next
      case False
      with ev Cons show ?thesis
        by (cases i) (auto simp: Close_def IsClosed_def split: proc.splits)
    qed
  qed
qed

lemma afterwards_closed:
  "\<not> connecting c \<Longrightarrow>
     heartbeats (afterwards env evs c) = heartbeats c \<and> \<not> connecting (afterwards env evs c)"
proof (induction evs arbitrary: c)
  case Nil
  then show ?case by simp
next
  case (Cons ev evs)
  from concurrent_closed [OF Cons.prems, of env ev] Cons.IH [of "concurrent env ev c"]
  show ?case by simp
qed

lemma afterwards_no_ticker:
  "tickers c = 0 \<Longrightarrow> heartbeats (afterwards env evs c) = heartbeats c"
proof (induction evs arbitrary: c)
  case Nil
  then show ?case by simp
next
  case (Cons ev evs)
  from concurrent_no_ticker [OF Cons.prems, of env ev] Cons.IH [of "concurrent env ev c"]
  show ?case by simp
qed

lemma Run_configured:
  "handshakeData c = Some hs \<Longrightarrow> handshakeAckData c = Some a \<Longrightarrow> heartbeatData c = Some h \<Longrightarrow>
   Dial env addr ws = None \<Longrightarrow>
     Run env addr ws evs c = read env evs (send hs (c\<lparr>conn := ConnOpen, connecting := True\<rparr>))"
  by (simp add: Run_def)

lemma Run_cases:
  "\<exists>c0. heartbeats c0 = heartbeats c \<and> tickers c0 = tickers c \<and>
        (Run env addr ws evs c = read env evs c0 \<and> connecting c0 \<or>
         (\<exists>e. Run env addr ws evs c = Returned (Some e) c0))"
proof (cases "handshakeData c")
  case None
  then have "Run env addr ws evs c = Returned (Some (errorString ''handshake not defined'')) c"
    by (simp add: Run_def)
  then show ?thesis by blast
next
  case (Some hs)
  obtain r1 c1 where 1:
    "(if handshakeAckData c = None then SetHandshakeAck env None c else (None, c)) = (r1, c1)"
    by (cases "if handshakeAckData c = None then SetHandshakeAck env None c else (None, c)")
  then have f1: "heartbeats c1 = heartbeats c \<and> tickers c1 = tickers c"
    by (auto simp: SetHandshakeAck_def split: if_splits sum.splits)
  obtain r2 c2 where 2:
    "(if heartbeatData c1 = None then SetHeartBeat env None c1 else (None, c1)) = (r2, c2)"
    by (cases "if heartbeatData c1 = None then SetHeartBeat env None c1 else (None, c1)")
  then have f2: "heartbeats c2 = heartbeats c1 \<and> tickers c2 = tickers c1"
    by (auto simp: SetHeartBeat_def split: if_splits sum.splits)
  show ?thesis
  proof (cases r1)
    case (Some e)
    with \<open>handshakeData c = Some hs\<close> 1 have "Run env addr ws evs c = Returned (Some e) c1"
      by (simp add: Run_def)
    with f1 show ?thesis by blast
  next
    case None
    note r1 = this
    show ?thesis
    proof (cases r2)
      case (Some e)
      with \<open>handshakeData c = Some hs\<close> 1 2 r1 have "Run env addr ws evs c = Returned (Some e) c2"
        by (simp add: Run_def)
      with f1 f2 show ?thesis by (metis)
    next
      case None
      note r2 = this
      show ?thesis
      proof (cases "Dial env addr ws")
        case (Some e)
        with \<open>handshakeData c = Some hs\<close> 1 2 r1 r2
        have "Run env addr ws evs c = Returned (Some e) c2"
          by (simp add: Run_def)
        with f1 f2 show ?thesis by metis
      next
        case None
        let ?c0 = "send hs (c2\<lparr>conn := ConnOpen, connecting := True\<rparr>)"
        from None \<open>handshakeData c = Some hs\<close> 1 2 r1 r2
        have "Run env addr ws evs c = read env evs ?c0"
          by (simp add: Run_def)
        moreover have "connecting ?c0" "heartbeats ?c0 = heartbeats c" "tickers ?c0 = tickers c"
          using f1 f2 by (simp_all add: send_def)
        ultimately show ?thesis by blast
      qed
    qed
  qed
qed

text \<open>
  The registry entry of an id stays as it is until a Response with that id is processed
  or the message id comes round to it again.
\<close>

lemma Request_other_id:
  "mid c \<noteq> i \<Longrightarrow> responses (snd (Request env route data callback c)) i = responses c i"
proof -
  assume n: "mid c \<noteq> i"
  obtain r c' where R: "Request env route data callback c = (r, c')"
    by (cases "Request env route data callback c")
  have "responses c' i = responses c i"
  proof (cases r)
    case None
    with R Request_ok [of env route data callback c c'] n show ?thesis by auto
  next
    case (Some e)
    with R Request_err [of env route data callback c e c'] n show ?thesis by auto
  qed
  with R show ?thesis by simp
qed

lemma Request_mid_step:
  "mid (snd (Request env route data callback c)) = mid c \<or>
   mid (snd (Request env route data callback c)) = mid c + 1"
proof -
  obtain r c' where R: "Request env route data callback c = (r, c')"
    by (cases "Request env route data callback c")
  have "mid c' = mid c \<or> mid c' = mid c + 1"
  proof (cases r)
    case None
    with R Request_ok [of env route data callback c c'] show ?thesis by auto
  next
    case (Some e)
    with R Request_err [of env route data callback c e c'] show ?thesis by auto
  qed
  with R show ?thesis by simp
qed

lemma Notify_step:
  "responses (snd (Notify env route data c)) = responses c \<and>
   (mid (snd (Notify env route data c)) = mid c \<or> mid (snd (Notify env route data c)) = mid c + 1)"
  by (simp add: Notify_def sendMessage_def send_def split: sum.splits)

text \<open>
  How far the message id is from reaching \<open>i\<close> again: \<open>unat (mid c - i - 1)\<close> sends
  have followed the one that used \<open>i\<close>.
\<close>

lemma distance_neq:
  fixes m i :: "('w::len) word"
  assumes "unat (m - i - 1) < 2 ^ LENGTH('w) - 1"
  shows "m \<noteq> i"
proof
  assume "m = i"
  then have "m - i - 1 = - 1" by simp
  then have "unat (m - i - 1) = 2 ^ LENGTH('w) - 1"
    by (simp add: unsigned_minus_1_eq_mask mask_eq_exp_minus_1)
  with assms show False by simp
qed

lemma distance_Suc:
  fixes m i :: "('w::len) word"
  assumes "unat (m - i - 1) + 1 < 2 ^ LENGTH('w)"
  shows "unat (m + 1 - i - 1) = unat (m - i - 1) + 1"
proof -
  define x where "x = m - i - 1"
  have "m + 1 - i - 1 = x + 1" by (simp add: x_def)
  moreover have "unat (x + 1) = (unat x + 1) mod 2 ^ LENGTH('w)"
    by (simp add: unat_word_ariths)
  moreover have "(unat x + 1) mod 2 ^ LENGTH('w) = unat x + 1"
    using assms by (simp add: x_def)
  ultimately show ?thesis by (simp add: x_def)
qed

lemma concurrent_keeps_entry:
  fixes c :: "('w::len) Connector"
  assumes "unat (mid c - i - 1) + (if isSend ev then 1 else 0) < 2 ^ LENGTH('w) - 1"
  shows "responses (concurrent env ev c) i = responses c i \<and>
         unat (mid (concurrent env ev c) - i - 1) \<le>
           unat (mid c - i - 1) + (if isSend ev then 1 else 0)"
proof (cases ev)
  case (CallRequest route data callback)
  with assms have d: "unat (mid c - i - 1) + 1 < 2 ^ LENGTH('w) - 1" by (simp add: isSend_def)
  then have "mid c \<noteq> i" by (intro distance_neq) simp
  then have 1: "responses (snd (Request env route data callback c)) i = responses c i"
    by (rule Request_other_id)
  from d have "unat (mid c + 1 - i - 1) = unat (mid c - i - 1) + 1"
    by (intro distance_Suc) simp
  with Request_mid_step [of env route data callback c]
  have "unat (mid (snd (Request env route data callback c)) - i - 1) \<le> unat (mid c - i - 1) + 1"
    by auto
  with 1 CallRequest show ?thesis by (simp add: concurrent_def isSend_def)
next
  case (CallNotify route data)
  with assms have d: "unat (mid c - i - 1) + 1 < 2 ^ LENGTH('w) - 1" by (simp add: isSend_def)
  from d have "unat (mid c + 1 - i - 1) = unat (mid c - i - 1) + 1"
    by (intro distance_Suc) simp
  with Notify_step [of env route data c]
  have "responses (snd (Notify env route data c)) i = responses c i \<and>
      unat (mid (snd (Notify env route data c)) - i - 1) \<le> unat (mid c - i - 1) + 1"
    by auto
  with CallNotify show ?thesis by (simp add: concurrent_def isSend_def)
qed (simp_all add: concurrent_def isSend_def heartbeatTick_def IsClosed_def send_def Close_def
    On_def)

lemma processPacket_keeps_entry:
  "processPacket env p c = Running c' \<Longrightarrow> \<not> answers env i p \<Longrightarrow>
     responses c' i = responses c i \<and> mid c' = mid c"
  by (auto simp: processPacket_def processMessage_def Close_def send_def Let_def answers_def
      eventHandler_def responseHandler_def setResponseHandler_def
      split: PacketType.splits sum.splits if_splits option.splits MessageType.splits)

lemma processPackets_keeps_entry:
  "processPackets env ps c = Running c' \<Longrightarrow> \<not> list_ex (answers env i) ps \<Longrightarrow>
     responses c' i = responses c i \<and> mid c' = mid c"
proof (induction ps arbitrary: c)
  case Nil
  then show ?case by simp
next
  case (Cons p ps)
  then obtain c1 where 1: "processPacket env p c = Running c1"
    and 2: "processPackets env ps c1 = Running c'"
    by (auto split: proc.splits)
  from Cons.prems have "\<not> answers env i p" "\<not> list_ex (answers env i) ps" by simp_all
  with processPacket_keeps_entry [OF 1] Cons.IH [OF 2] show ?case by simp
qed

lemma read_keeps_entry:
  fixes c :: "('w::len) Connector"
  shows "unat (mid c - i - 1) + length (filter isSend evs) < 2 ^ LENGTH('w) - 1 \<Longrightarrow>
     \<forall>ev\<in>set evs. \<not> answerEvent env i ev \<Longrightarrow>
     read env evs c = Blocked c' \<or> read env evs c = Returned r c' \<Longrightarrow>
     responses c' i = responses c i"
proof (induction evs arbitrary: c)
  case Nil
  then show ?case by auto
next
  case (Cons ev evs)
  from Cons.prems(2) have rest: "\<forall>ev\<in>set evs. \<not> answerEvent env i ev" by simp
  show ?case
  proof (cases "\<exists>x. ev = Recv x")
    case False
    then have s: "read env (ev # evs) c = read env evs (concurrent env ev c)"
      by (simp add: read_concurrent)
    from Cons.prems(1)
    have "unat (mid c - i - 1) + (if isSend ev then 1 else 0) < 2 ^ LENGTH('w) - 1"
      by (simp split: if_splits)
    from concurrent_keeps_entry [OF this, of env]
    have k: "responses (concurrent env ev c) i = responses c i" and
      d: "unat (mid (concurrent env ev c) - i - 1) \<le>
           unat (mid c - i - 1) + (if isSend ev then 1 else 0)"
      by simp_all
    from d Cons.prems(1)
    have "unat (mid (concurrent env ev c) - i - 1) + length (filter isSend evs)
        < 2 ^ LENGTH('w) - 1"
      by (simp split: if_splits)
    from Cons.IH [OF this rest] s Cons.prems(3) k show ?thesis by simp
  next
    case True
    then obtain x where ev: "ev = Recv x" by blast
    then have ns: "\<not> isSend ev" by (simp add: isSend_def)
    with Cons.prems(1) have b: "unat (mid c - i - 1) + length (filter isSend evs)
        < 2 ^ LENGTH('w) - 1"
      by simp
    show ?thesis
    proof (cases "IsClosed c")
      case True
      with ev Cons.prems show ?thesis by auto
    next
      case notClosed: False
      show ?thesis
      proof (cases x)
        case (ReadErr e)
        with ev notClosed Cons.prems show ?thesis by (auto simp: Close_def)
      next
        case (DecodeErr e)
        with ev notClosed Cons.prems(3)
        have "read env evs c = Blocked c' \<or> read env evs c = Returned r c'"
          by simp
        with Cons.IH [OF b rest] show ?thesis by simp
      next
        case (Decoded ps)
        with ev Cons.prems(2) have na: "\<not> list_ex (answers env i) ps"
          by (simp add: answerEvent_def)
        from ev notClosed Decoded Cons.prems(3) obtain c1 where
          1: "processPackets env ps c = Running c1" and
          2: "read env evs c1 = Blocked c' \<or> read env evs c1 = Returned r c'"
          by (auto split: proc.splits)
        from processPackets_keeps_entry [OF 1 na]
        have k: "responses c1 i = responses c i" "mid c1 = mid c" by simp_all
        with b have "unat (mid c1 - i - 1) + length (filter isSend evs) < 2 ^ LENGTH('w) - 1"
          by simp
        from Cons.IH [OF this rest 2] k show ?thesis by simp
      qed
    qed
  qed
qed

section \<open>The claims about the loop\<close>

text \<open>Decode failures leave an open connector and its loop as they are.\<close>

lemma read_decode_failures:
  "connecting c \<Longrightarrow> read env (map (\<lambda>d. Recv (DecodeErr d)) ds @ evs) c = read env evs c"
  by (induction ds) (simp_all add: IsClosed_def)

text \<open>
  C9. On an open connector a decode failure changes nothing and the loop goes on to its
  next iteration, for any number of decode failures in a row; a failure of the transport
  read closes the connection (the connector is closed, its transport too) and ends the
  loop with that error. For a configured connector whose dial succeeds, that error is what
  \<^verbatim>\<open>Run\<close> returns.
\<close>

theorem decode_failure_continues_read_failure_returns:
  "(connecting c \<longrightarrow>
      read env (Recv (DecodeErr d) # evs) c = read env evs c \<and>
      read env (map (\<lambda>d. Recv (DecodeErr d)) ds @ evs) c = read env evs c \<and>
      read env (Recv (ReadErr e) # evs) c = Returned (Some e) (Close c) \<and>
      IsClosed (Close c) \<and> conn (Close c) = ConnClosed) \<and>
   (handshakeData c = Some hs \<and> handshakeAckData c = Some a \<and> heartbeatData c = Some h \<and>
    Dial env addr ws = None \<longrightarrow>
      Run env addr ws (map (\<lambda>d. Recv (DecodeErr d)) ds @ Recv (ReadErr e) # evs) c =
        Returned (Some e) (Close (send hs (c\<lparr>conn := ConnOpen, connecting := True\<rparr>))))"
proof (intro conjI impI)
  assume "connecting c"
  then show "read env (Recv (DecodeErr d) # evs) c = read env evs c"
    "read env (Recv (ReadErr e) # evs) c = Returned (Some e) (Close c)"
    "IsClosed (Close c)" "conn (Close c) = ConnClosed"
    by (simp_all add: IsClosed_def Close_def)
  from \<open>connecting c\<close> show
    "read env (map (\<lambda>d. Recv (DecodeErr d)) ds @ evs) c = read env evs c"
    by (rule read_decode_failures)
next
  let ?c0 = "send hs (c\<lparr>conn := ConnOpen, connecting := True\<rparr>)"
  assume "handshakeData c = Some hs \<and> handshakeAckData c = Some a \<and> heartbeatData c = Some h \<and>
    Dial env addr ws = None"
  then have "Run env addr ws (map (\<lambda>d. Recv (DecodeErr d)) ds @ Recv (ReadErr e) # evs) c =
      read env (map (\<lambda>d. Recv (DecodeErr d)) ds @ Recv (ReadErr e) # evs) ?c0"
    by (simp add: Run_configured)
  moreover have o: "connecting ?c0" by (simp add: send_def)
  ultimately show "Run env addr ws (map (\<lambda>d. Recv (DecodeErr d)) ds @ Recv (ReadErr e) # evs) c =
      Returned (Some e) (Close ?c0)"
    by (simp add: read_decode_failures IsClosed_def)
qed

text \<open>
  C3, as the code has it. Whatever \<^verbatim>\<open>Run\<close> returns is an error, never \<^verbatim>\<open>nil\<close>; so is
  whatever the loop returns, and the connector is then closed. For a configured connector
  whose dial succeeds, the outcome of \<^verbatim>\<open>Run\<close> is the outcome of the loop, and after an
  explicit \<^verbatim>\<open>Close\<close> the next iteration of the loop ends it with the error
  \<open>read err: connector is closed\<close>.
\<close>

theorem Run_returns_loop_error:
  "(Run env addr ws evs c = Returned r c' \<longrightarrow> r \<noteq> None) \<and>
   (read env evs c = Returned r c' \<longrightarrow> r \<noteq> None \<and> IsClosed c') \<and>
   (handshakeData c = Some hs \<and> handshakeAckData c = Some a \<and> heartbeatData c = Some h \<and>
    Dial env addr ws = None \<longrightarrow>
      Run env addr ws evs c = read env evs (send hs (c\<lparr>conn := ConnOpen, connecting := True\<rparr>)) \<and>
      Run env addr ws (CallClose # Recv i # evs) c =
        Returned (Some (errorString ''read err: connector is closed''))
          (Close (send hs (c\<lparr>conn := ConnOpen, connecting := True\<rparr>))))"
proof (intro conjI impI)
  assume R: "Run env addr ws evs c = Returned r c'"
  from Run_cases [of c env addr ws evs] obtain c0 where
    "Run env addr ws evs c = read env evs c0 \<or> (\<exists>e. Run env addr ws evs c = Returned (Some e) c0)"
    by blast
  then show "r \<noteq> None"
  proof
    assume "Run env addr ws evs c = read env evs c0"
    with R have "read env evs c0 = Returned r c'" by simp
    from read_returned [OF this] show ?thesis by simp
  next
    assume "\<exists>e. Run env addr ws evs c = Returned (Some e) c0"
    with R show ?thesis by auto
  qed
next
  assume "read env evs c = Returned r c'"
  from read_returned [OF this] show "r \<noteq> None" "IsClosed c'" by (simp_all add: IsClosed_def)
next
  let ?c0 = "send hs (c\<lparr>conn := ConnOpen, connecting := True\<rparr>)"
  assume a: "handshakeData c = Some hs \<and> handshakeAckData c = Some a \<and>
    heartbeatData c = Some h \<and> Dial env addr ws = None"
  then show "Run env addr ws evs c = read env evs ?c0"
    by (simp add: Run_configured)
  from a have "Run env addr ws (CallClose # Recv i # evs) c = read env (CallClose # Recv i # evs) ?c0"
    by (simp add: Run_configured)
  then show "Run env addr ws (CallClose # Recv i # evs) c =
      Returned (Some (errorString ''read err: connector is closed'')) (Close ?c0)"
    by (simp add: concurrent_def IsClosed_def Close_def)
qed

text \<open>
  C7. From a connector with no ticker, as long as no iteration of the loop has decoded a
  Handshake frame with code 200, no ticker has put a heartbeat frame on the send queue,
  whatever ticks and calls happen, in \<^verbatim>\<open>Run\<close> or without it. \<^verbatim>\<open>Close\<close> leaves the
  connector closed, and so does every return of the loop (a fatal read error among them).
  On a closed connector a tick puts nothing on the send queue, and whatever events follow,
  with the loop still running or not, the number of heartbeat frames stays what it was and
  the connector stays closed.
\<close>

theorem heartbeat_only_while_established:
  "(tickers c = 0 \<and> (\<forall>ev\<in>set evs. \<not> handshakeEvent env ev) \<and>
    (Run env addr ws evs c = Blocked c' \<or> Run env addr ws evs c = Returned r c') \<longrightarrow>
      heartbeats c' = heartbeats c) \<and>
   (tickers c = 0 \<longrightarrow> heartbeats (afterwards env evs c) = heartbeats c) \<and>
   IsClosed (Close c) \<and>
   (read env evs c = Returned r c' \<longrightarrow> IsClosed c') \<and>
   (IsClosed c \<longrightarrow>
      chSend (heartbeatTick c) = chSend c \<and> heartbeats (heartbeatTick c) = heartbeats c \<and>
      heartbeats (afterwards env evs c) = heartbeats c \<and> IsClosed (afterwards env evs c)) \<and>
   (IsClosed c \<and> (read env evs c = Blocked c' \<or> read env evs c = Returned r c') \<longrightarrow>
      heartbeats c' = heartbeats c \<and> IsClosed c')"
proof (intro conjI impI)
  assume a: "tickers c = 0 \<and> (\<forall>ev\<in>set evs. \<not> handshakeEvent env ev) \<and>
    (Run env addr ws evs c = Blocked c' \<or> Run env addr ws evs c = Returned r c')"
  from Run_cases [of c env addr ws evs] obtain c0 where
    h: "heartbeats c0 = heartbeats c" and t: "tickers c0 = tickers c" and
    d: "Run env addr ws evs c = read env evs c0 \<or> (\<exists>e. Run env addr ws evs c = Returned (Some e) c0)"
    by blast
  from d show "heartbeats c' = heartbeats c"
  proof
    assume "Run env addr ws evs c = read env evs c0"
    with a have "read env evs c0 = Blocked c' \<or> read env evs c0 = Returned r c'" by simp
    from read_no_handshake [OF _ _ this] a t h show ?thesis by simp
  next
    assume "\<exists>e. Run env addr ws evs c = Returned (Some e) c0"
    with a h show ?thesis by auto
  qed
next
  assume "tickers c = 0"
  then show "heartbeats (afterwards env evs c) = heartbeats c" by (rule afterwards_no_ticker)
next
  show "IsClosed (Close c)" by (simp add: IsClosed_def Close_def)
next
  assume "read env evs c = Returned r c'"
  from read_returned [OF this] show "IsClosed c'" by (simp add: IsClosed_def)
next
  assume "IsClosed c"
  then have n: "\<not> connecting c" by (simp add: IsClosed_def)
  then show "chSend (heartbeatTick c) = chSend c" "heartbeats (heartbeatTick c) = heartbeats c"
    by (simp_all add: heartbeatTick_def IsClosed_def)
  from afterwards_closed [OF n, of env evs]
  show "heartbeats (afterwards env evs c) = heartbeats c" "IsClosed (afterwards env evs c)"
    by (simp_all add: IsClosed_def)
next
  assume "IsClosed c \<and> (read env evs c = Blocked c' \<or> read env evs c = Returned r c')"
  then have n: "\<not> connecting c" and
    o: "read env evs c = Blocked c' \<or> read env evs c = Returned r c'"
    by (simp_all add: IsClosed_def)
  from read_closed [OF n o] show "heartbeats c' = heartbeats c" "IsClosed c'"
    by (simp_all add: IsClosed_def)
qed

text \<open>The connected callback is called once for each Handshake frame with code 200.\<close>

lemma processPackets_connected:
  "processPackets env ps c = Running c' \<Longrightarrow>
     connectedCount c' = connectedCount c +
       (if connectedCallback c = None then 0 else length (filter (handshakeOK env) ps))"
proof (induction ps arbitrary: c)
  case Nil
  then show ?case by simp
next
  case (Cons p ps)
  then obtain c1 where 1: "processPacket env p c = Running c1"
    and 2: "processPackets env ps c1 = Running c'"
    by (auto split: proc.splits)
  from processPacket_heartbeats [OF 1] have "connectedCallback c1 = connectedCallback c" by simp
  with processPacket_connected [OF 1] Cons.IH [OF 2] show ?case by simp
qed

text \<open>
  C8, as the code has it. A Handshake frame with code 200 that is processed calls the
  connected callback, when one is configured, exactly once; over a batch of frames the
  callback is called as many times as the batch has Handshake frames with code 200, and
  never when none is configured.
\<close>

theorem connectedCallback_once_per_handshake:
  "(handshakeOK env p \<and> connectedCallback c = Some cb \<and> processPacket env p c = Running c' \<longrightarrow>
      calls c' = calls c @ [CallConnected cb]) \<and>
   (processPackets env ps c = Running c' \<longrightarrow>
      connectedCount c' = connectedCount c +
        (if connectedCallback c = None then 0 else length (filter (handshakeOK env) ps)))"
proof (intro conjI impI)
  assume "handshakeOK env p \<and> connectedCallback c = Some cb \<and> processPacket env p c = Running c'"
  then show "calls c' = calls c @ [CallConnected cb]"
    by (auto simp: processPacket_def handshakeOK_def send_def Let_def
        split: PacketType.splits sum.splits if_splits)
next
  assume "processPackets env ps c = Running c'"
  then show "connectedCount c' = connectedCount c +
      (if connectedCallback c = None then 0 else length (filter (handshakeOK env) ps))"
    by (rule processPackets_connected)
qed

text \<open>
  C5. A Response whose id has an entry in the registry calls that entry's callback once,
  with the payload of the Response, and removes the entry; a Response whose id has no entry
  changes nothing and calls nothing; a Data frame that decodes to a message is dispatched
  as that message. After a \<^verbatim>\<open>Request\<close> that succeeds with a callback, the entry for its
  id is that callback, and it is still there after any events that neither decode a
  Response with that id nor send so many messages that the message id wraps around to it;
  the first Response with that id then calls the callback once with its payload and
  removes the entry, and a second such Response is dropped.
\<close>

theorem Response_delivery:
  fixes c :: "('w::len) Connector"
  shows
  "(responses c i = Some cb \<longrightarrow>
      processMessage \<lparr>Message_Type = message_Response, Message_Route = r, Message_ID = i,
          Message_Data = p\<rparr> c =
        Running (c\<lparr>calls := calls c @ [Invoke cb p], responses := (responses c)(i := None)\<rparr>)) \<and>
   (responses c i = None \<longrightarrow>
      processMessage \<lparr>Message_Type = message_Response, Message_Route = r, Message_ID = i,
          Message_Data = p\<rparr> c = Running c) \<and>
   (Packet_Type pk = packet_Data \<and> message_Decode env (Packet_Data pk) = Inr msg \<longrightarrow>
      processPacket env pk c = processMessage msg c) \<and>
   (Request env route data (Some cb) c = (None, c1) \<and>
    length (filter isSend evs) < 2 ^ LENGTH('w) - 1 \<and>
    (\<forall>ev\<in>set evs. \<not> answerEvent env (mid c) ev) \<and>
    read env evs c1 = Blocked c2 \<longrightarrow>
      responses c1 (mid c) = Some cb \<and> responses c2 (mid c) = Some cb \<and>
      processMessage \<lparr>Message_Type = message_Response, Message_Route = r, Message_ID = mid c,
          Message_Data = p\<rparr> c2 =
        Running (c2\<lparr>calls := calls c2 @ [Invoke cb p],
                   responses := (responses c2)(mid c := None)\<rparr>) \<and>
      processMessage \<lparr>Message_Type = message_Response, Message_Route = r, Message_ID = mid c,
          Message_Data = p\<rparr>
          (c2\<lparr>calls := calls c2 @ [Invoke cb p], responses := (responses c2)(mid c := None)\<rparr>) =
        Running (c2\<lparr>calls := calls c2 @ [Invoke cb p],
                   responses := (responses c2)(mid c := None)\<rparr>))"
proof (intro conjI impI)
  assume "Packet_Type pk = packet_Data \<and> message_Decode env (Packet_Data pk) = Inr msg"
  then show "processPacket env pk c = processMessage msg c"
    by (simp add: processPacket_def)
next
  assume a: "Request env route data (Some cb) c = (None, c1) \<and>
    length (filter isSend evs) < 2 ^ LENGTH('w) - 1 \<and>
    (\<forall>ev\<in>set evs. \<not> answerEvent env (mid c) ev) \<and>
    read env evs c1 = Blocked c2"
  then have R: "Request env route data (Some cb) c = (None, c1)" by simp
  from Request_ok [OF R] obtain q where
    c1: "c1 = c\<lparr>mid := mid c + 1, chSend := chSend c @ [q],
                  responses := (responses c)(mid c \<mapsto> cb)\<rparr>"
    by blast
  then show e1: "responses c1 (mid c) = Some cb" by simp
  from c1 have "unat (mid c1 - mid c - 1) = 0" by simp
  with a have "unat (mid c1 - mid c - 1) + length (filter isSend evs) < 2 ^ LENGTH('w) - 1"
    by simp
  from read_keeps_entry [OF this, of env c2] a e1
  show e2: "responses c2 (mid c) = Some cb" by simp
  then show "processMessage \<lparr>Message_Type = message_Response, Message_Route = r,
          Message_ID = mid c, Message_Data = p\<rparr> c2 =
        Running (c2\<lparr>calls := calls c2 @ [Invoke cb p],
                   responses := (responses c2)(mid c := None)\<rparr>)"
    by (simp add: processMessage_Response)
  show "processMessage \<lparr>Message_Type = message_Response, Message_Route = r, Message_ID = mid c,
          Message_Data = p\<rparr>
          (c2\<lparr>calls := calls c2 @ [Invoke cb p], responses := (responses c2)(mid c := None)\<rparr>) =
        Running (c2\<lparr>calls := calls c2 @ [Invoke cb p],
                   responses := (responses c2)(mid c := None)\<rparr>)"
    by (simp add: processMessage_Response)
qed (simp_all add: processMessage_Response)

section \<open>Runs on the sample\<close>

text \<open>The definitions that a run on concrete inputs unfolds.\<close>

lemmas sample_defs = Run_def sampleCodecs_def configured_def NewConnector_def send_def IsClosed_def
   processPacket_def tickerDuration_def slice_def Let_def Close_def concurrent_def
   heartbeatTick_def processMessage_def Notify_def sendMessage_def packetTag_def messageTag_def
   eventHandler_def responseHandler_def setResponseHandler_def

text \<open>
  C9 on the sample: two decode failures, then a read failure, which \<^verbatim>\<open>Run\<close> returns.
\<close>

theorem decode_failure_continues_read_failure_returns_witness:
  "Run sampleCodecs ''srv'' False
       (map (\<lambda>d. Recv (DecodeErr d)) [extError ''short'', extError ''garbled''] @
          Recv (ReadErr (extError ''EOF'')) # [Tick])
       (configured :: 64 Connector) =
     Returned (Some (extError ''EOF''))
       (configured\<lparr>conn := ConnClosed, die := 1, chSend := [[1]]\<rparr>) \<and>
   read sampleCodecs [Recv (DecodeErr (extError ''short''))]
       (configured\<lparr>conn := ConnOpen, connecting := True\<rparr> :: 64 Connector) =
     Blocked (configured\<lparr>conn := ConnOpen, connecting := True\<rparr>)"
  using decode_failure_continues_read_failure_returns
    [where c = "configured :: 64 Connector" and env = sampleCodecs and addr = "''srv''"
       and ws = False and hs = "[1]" and a = "[2]" and h = "[3]"
       and ds = "[extError ''short'', extError ''garbled'']" and e = "extError ''EOF''"
       and evs = "[Tick]"]
    decode_failure_continues_read_failure_returns
    [where c = "configured\<lparr>conn := ConnOpen, connecting := True\<rparr> :: 64 Connector"
       and env = sampleCodecs and d = "extError ''short''" and evs = "[]"]
  by (simp add: sample_defs)

text \<open>
  C3 on the sample: an explicit \<^verbatim>\<open>Close\<close> while \<^verbatim>\<open>Run\<close> is blocked, and a read failure.
\<close>

theorem Run_returns_loop_error_witness:
  "Run sampleCodecs ''srv'' False [CallClose, Recv (Decoded []), Tick] (configured :: 64 Connector) =
     Returned (Some (errorString ''read err: connector is closed''))
       (configured\<lparr>conn := ConnClosed, die := 1, chSend := [[1]]\<rparr>) \<and>
   Some (errorString ''read err: connector is closed'') \<noteq> None \<and>
   read sampleCodecs [Recv (ReadErr (extError ''EOF''))]
       (configured\<lparr>conn := ConnOpen, connecting := True\<rparr> :: 64 Connector) =
     Returned (Some (extError ''EOF'')) (configured\<lparr>conn := ConnClosed, die := 1\<rparr>) \<and>
   IsClosed (configured\<lparr>conn := ConnClosed, die := 1\<rparr> :: 64 Connector)"
proof -
  have 1: "Run sampleCodecs ''srv'' False [CallClose, Recv (Decoded []), Tick]
      (configured :: 64 Connector) =
     Returned (Some (errorString ''read err: connector is closed''))
       (configured\<lparr>conn := ConnClosed, die := 1, chSend := [[1]]\<rparr>)"
    by (simp add: sample_defs)
  have 2: "read sampleCodecs [Recv (ReadErr (extError ''EOF''))]
       (configured\<lparr>conn := ConnOpen, connecting := True\<rparr> :: 64 Connector) =
     Returned (Some (extError ''EOF'')) (configured\<lparr>conn := ConnClosed, die := 1\<rparr>)"
    by (simp add: sample_defs)
  have 3: "handshakeData (configured :: 64 Connector) = Some [1] \<and>
      handshakeAckData (configured :: 64 Connector) = Some [2] \<and>
      heartbeatData (configured :: 64 Connector) = Some [3] \<and>
      Dial (sampleCodecs :: 64 Codecs) ''srv'' False = None"
    by (simp add: sample_defs)
  from Run_returns_loop_error
    [where c = "configured :: 64 Connector" and env = sampleCodecs and addr = "''srv''"
       and ws = False and hs = "[1]" and a = "[2]" and h = "[3]"
       and evs = "[CallClose, Recv (Decoded []), Tick]"
       and r = "Some (errorString ''read err: connector is closed'')"
       and c' = "configured\<lparr>conn := ConnClosed, die := 1, chSend := [[1]]\<rparr>"] 1 3
  have "Some (errorString ''read err: connector is closed'') \<noteq> None" by blast
  moreover from Run_returns_loop_error
    [where c = "configured\<lparr>conn := ConnOpen, connecting := True\<rparr> :: 64 Connector"
       and env = sampleCodecs and evs = "[Recv (ReadErr (extError ''EOF''))]"
       and r = "Some (extError ''EOF'')"
       and c' = "configured\<lparr>conn := ConnClosed, die := 1\<rparr>"] 2
  have "IsClosed (configured\<lparr>conn := ConnClosed, die := 1\<rparr> :: 64 Connector)" by blast
  ultimately show ?thesis using 1 2 by blast
qed

text \<open>
  C3 as stated fails: after an explicit \<^verbatim>\<open>Close\<close>, which is the clean way to close the
  connection, \<^verbatim>\<open>Run\<close> returns the error \<open>read err: connector is closed\<close> and not
  \<^verbatim>\<open>nil\<close>.
\<close>

theorem Run_returns_loop_error_counterexample:
  "Run sampleCodecs ''srv'' False [CallClose, Recv (Decoded [])] (configured :: 64 Connector) =
     Returned (Some (errorString ''read err: connector is closed''))
       (configured\<lparr>conn := ConnClosed, die := 1, chSend := [[1]]\<rparr>) \<and>
   Run sampleCodecs ''srv'' False [CallClose, Recv (Decoded [])] (configured :: 64 Connector) \<noteq>
     Returned None (configured\<lparr>conn := ConnClosed, die := 1, chSend := [[1]]\<rparr>)"
  by (simp add: sample_defs)

text \<open>
  C8 as stated fails: a second Handshake frame with code 200 calls the connected callback a
  second time (and starts a second ticker).
\<close>

theorem connectedCallback_once_per_handshake_counterexample:
  "Run sampleCodecs ''srv'' False
       [Recv (Decoded [\<lparr>Packet_Type = packet_Handshake, Packet_Data = [2, 3]\<rparr>]),
        Recv (Decoded [\<lparr>Packet_Type = packet_Handshake, Packet_Data = [2, 3]\<rparr>])]
       (configured :: 64 Connector) =
     Blocked (configured\<lparr>conn := ConnOpen, connecting := True, chSend := [[1], [2], [2]],
       calls := [CallConnected 9, CallConnected 9], tickers := 2\<rparr>) \<and>
   connectedCount (configured\<lparr>conn := ConnOpen, connecting := True, chSend := [[1], [2], [2]],
       calls := [CallConnected 9, CallConnected 9], tickers := 2\<rparr> :: 64 Connector) = 2"
  by (simp add: sample_defs connectedCount_def isConnected_def)

text \<open>C8 on the sample: one such frame, then a batch with two of them.\<close>

theorem connectedCallback_once_per_handshake_witness:
  "handshakeOK (sampleCodecs :: 64 Codecs) \<lparr>Packet_Type = packet_Handshake, Packet_Data = [2, 3]\<rparr> \<and>
   processPacket sampleCodecs \<lparr>Packet_Type = packet_Handshake, Packet_Data = [2, 3]\<rparr>
       (configured :: 64 Connector) =
     Running (configured\<lparr>chSend := [[2]], calls := [CallConnected 9], tickers := 1\<rparr>) \<and>
   processPackets sampleCodecs
       [\<lparr>Packet_Type = packet_Handshake, Packet_Data = [2, 3]\<rparr>,
        \<lparr>Packet_Type = packet_Heartbeat, Packet_Data = []\<rparr>,
        \<lparr>Packet_Type = packet_Handshake, Packet_Data = [2, 3]\<rparr>]
       (configured :: 64 Connector) =
     Running (configured\<lparr>chSend := [[2], [2]], calls := [CallConnected 9, CallConnected 9],
       tickers := 2\<rparr>) \<and>
   connectedCount (configured\<lparr>chSend := [[2], [2]], calls := [CallConnected 9, CallConnected 9],
       tickers := 2\<rparr> :: 64 Connector) = connectedCount (configured :: 64 Connector) + 2"
proof -
  have 1: "handshakeOK (sampleCodecs :: 64 Codecs)
      \<lparr>Packet_Type = packet_Handshake, Packet_Data = [2, 3]\<rparr>"
    by (simp add: handshakeOK_def sampleCodecs_def)
  have 2: "processPacket sampleCodecs \<lparr>Packet_Type = packet_Handshake, Packet_Data = [2, 3]\<rparr>
       (configured :: 64 Connector) =
     Running (configured\<lparr>chSend := [[2]], calls := [CallConnected 9], tickers := 1\<rparr>)"
    by (simp add: sample_defs)
  have 3: "processPackets sampleCodecs
       [\<lparr>Packet_Type = packet_Handshake, Packet_Data = [2, 3]\<rparr>,
        \<lparr>Packet_Type = packet_Heartbeat, Packet_Data = []\<rparr>,
        \<lparr>Packet_Type = packet_Handshake, Packet_Data = [2, 3]\<rparr>]
       (configured :: 64 Connector) =
     Running (configured\<lparr>chSend := [[2], [2]], calls := [CallConnected 9, CallConnected 9],
       tickers := 2\<rparr>)"
    by (simp add: sample_defs)
  have 4: "connectedCallback (configured :: 64 Connector) = Some 9"
    by (simp add: sample_defs)
  from connectedCallback_once_per_handshake
    [where env = "sampleCodecs :: 64 Codecs"
       and p = "\<lparr>Packet_Type = packet_Handshake, Packet_Data = [2, 3]\<rparr>"
       and c = "configured" and cb = 9
       and ps = "[\<lparr>Packet_Type = packet_Handshake, Packet_Data = [2, 3]\<rparr>,
        \<lparr>Packet_Type = packet_Heartbeat, Packet_Data = []\<rparr>,
        \<lparr>Packet_Type = packet_Handshake, Packet_Data = [2, 3]\<rparr>]"
       and c' = "configured\<lparr>chSend := [[2], [2]], calls := [CallConnected 9, CallConnected 9],
       tickers := 2\<rparr>"] 3 4 1
    connectedCallback_once_per_handshake
    [where env = "sampleCodecs :: 64 Codecs"
       and p = "\<lparr>Packet_Type = packet_Handshake, Packet_Data = [2, 3]\<rparr>"
       and c = "configured" and cb = 9 and ps = "[]"
       and c' = "configured\<lparr>chSend := [[2]], calls := [CallConnected 9], tickers := 1\<rparr>"] 2
  have "connectedCount (configured\<lparr>chSend := [[2], [2]], calls := [CallConnected 9, CallConnected 9],
       tickers := 2\<rparr> :: 64 Connector) = connectedCount (configured :: 64 Connector) + 2"
    by (simp add: handshakeOK_def sampleCodecs_def)
  with 1 2 3 show ?thesis by blast
qed


text \<open>
  C7 on the sample: ticks before any handshake response, and ticks on a connector that was
  closed while its ticker was running.
\<close>

theorem heartbeat_only_while_established_witness:
  "Run sampleCodecs ''srv'' False
       [Tick, CallNotify ''chat.say'' [1],
        Recv (Decoded [\<lparr>Packet_Type = packet_Data, Packet_Data = [3, 0, 7]\<rparr>]), Tick]
       (configured :: 64 Connector) =
     Blocked (configured\<lparr>conn := ConnOpen, mid := 1, connecting := True,
       chSend := [[1], [4, 1, 0, 1]]\<rparr>) \<and>
   heartbeats (configured\<lparr>conn := ConnOpen, mid := 1, connecting := True,
       chSend := [[1], [4, 1, 0, 1]]\<rparr> :: 64 Connector) = heartbeats (configured :: 64 Connector) \<and>
   read sampleCodecs [Tick, Tick, Recv (Decoded [])]
       (configured\<lparr>conn := ConnClosed, die := 1, chSend := [[1], [2], [3]],
          calls := [CallConnected 9], tickers := 1, heartbeats := 1\<rparr> :: 64 Connector) =
     Returned (Some (errorString ''read err: connector is closed''))
       (configured\<lparr>conn := ConnClosed, die := 1, chSend := [[1], [2], [3]],
          calls := [CallConnected 9], tickers := 0, heartbeats := 1\<rparr>) \<and>
   heartbeats (afterwards sampleCodecs [Tick, CallClose, Tick]
       (configured\<lparr>conn := ConnClosed, die := 1, chSend := [[1], [2], [3]],
          calls := [CallConnected 9], tickers := 1, heartbeats := 1\<rparr> :: 64 Connector)) = 1"
proof -
  let ?evs = "[Tick, CallNotify ''chat.say'' [1],
        Recv (Decoded [\<lparr>Packet_Type = packet_Data, Packet_Data = [3, 0, 7]\<rparr>]), Tick]"
  let ?a = "configured\<lparr>conn := ConnOpen, mid := 1, connecting := True,
       chSend := [[1], [4, 1, 0, 1]]\<rparr> :: 64 Connector"
  let ?b = "configured\<lparr>conn := ConnClosed, die := 1, chSend := [[1], [2], [3]],
          calls := [CallConnected 9], tickers := 1, heartbeats := 1\<rparr> :: 64 Connector"
  let ?b' = "configured\<lparr>conn := ConnClosed, die := 1, chSend := [[1], [2], [3]],
          calls := [CallConnected 9], tickers := 0, heartbeats := 1\<rparr> :: 64 Connector"
  have 1: "Run sampleCodecs ''srv'' False ?evs (configured :: 64 Connector) = Blocked ?a"
    by (simp add: sample_defs)
  have 2: "tickers (configured :: 64 Connector) = 0"
    by (simp add: sample_defs)
  have 3: "\<forall>ev\<in>set ?evs. \<not> handshakeEvent (sampleCodecs :: 64 Codecs) ev"
    by (simp add: handshakeEvent_def handshakeOK_def)
  have 4: "read sampleCodecs [Tick, Tick, Recv (Decoded [])] ?b =
      Returned (Some (errorString ''read err: connector is closed'')) ?b'"
    by (simp add: sample_defs)
  have 5: "IsClosed ?b"
    by (simp add: sample_defs)
  from heartbeat_only_while_established
    [where c = "configured :: 64 Connector" and env = sampleCodecs and addr = "''srv''"
       and ws = False and evs = ?evs and c' = ?a] 1 2 3
  have a: "heartbeats ?a = heartbeats (configured :: 64 Connector)" by blast
  from heartbeat_only_while_established
    [where c = ?b and env = sampleCodecs and evs = "[Tick, Tick, Recv (Decoded [])]"
       and c' = ?b' and r = "Some (errorString ''read err: connector is closed'')"] 4 5
  have "heartbeats ?b' = heartbeats ?b" by blast
  from heartbeat_only_while_established
    [where c = ?b and env = sampleCodecs and evs = "[Tick, CallClose, Tick]"] 5
  have "heartbeats (afterwards sampleCodecs [Tick, CallClose, Tick] ?b) = heartbeats ?b"
    by blast
  then have "heartbeats (afterwards sampleCodecs [Tick, CallClose, Tick] ?b) = 1" by simp
  with 1 a 4 show ?thesis by blast
qed

text \<open>
  C1. The claim is that a handshake response whose code is not 200 fails the connection
  only: it is closed, \<^verbatim>\<open>Run\<close> returns a protocol error, and the host process goes on. The
  code does otherwise: at a response with code 500, \<^verbatim>\<open>log.Fatal\<close> ends the process with
  status 1, so that \<^verbatim>\<open>Run\<close> never returns and the \<^verbatim>\<open>c.Close()\<close> written after it is
  never reached. The branch beside it, for a response that does not decode, does what the
  claim says: the connection is closed and \<^verbatim>\<open>Run\<close> returns an error.
\<close>

theorem bad_handshake_code_exits_process:
  "Run sampleCodecs ''srv'' False
       [Recv (Decoded [\<lparr>Packet_Type = packet_Handshake, Packet_Data = [5, 3]\<rparr>])]
       (configured :: 64 Connector) = Terminated 1 \<and>
   Run sampleCodecs ''srv'' False
       [Recv (Decoded [\<lparr>Packet_Type = packet_Handshake, Packet_Data = [7]\<rparr>]),
        Recv (Decoded [])]
       (configured :: 64 Connector) =
     Returned (Some (errorString ''read err: connector is closed''))
       (configured\<lparr>conn := ConnClosed, die := 1, chSend := [[1]]\<rparr>)"
  by (simp add: sample_defs)

text \<open>
  C2. The claim is that a Kick frame closes the connection and makes \<^verbatim>\<open>Run\<close> return an
  error, with the host process going on. The code does otherwise: at a Kick frame, on any
  connector and with any collaborators, \<^verbatim>\<open>log.Fatal\<close> ends the process with status 1, so
  that \<^verbatim>\<open>Run\<close> never returns and the \<^verbatim>\<open>c.Close()\<close> written after it is never reached.
\<close>

theorem Kick_exits_process:
  "processPacket env \<lparr>Packet_Type = packet_Kick, Packet_Data = d\<rparr> c = Exited 1 \<and>
   Run sampleCodecs ''srv'' False
       [Recv (Decoded [\<lparr>Packet_Type = packet_Kick, Packet_Data = []\<rparr>])]
       (configured :: 64 Connector) = Terminated 1"
  by (simp add: sample_defs)

text \<open>
  C5 on the sample: a request, then a notification and a Response with another id, then the
  Response of the request; and a Response that nothing awaits.
\<close>

theorem Response_delivery_witness:
  "Request sampleCodecs ''room.join'' [2] (Some 7)
       (configured\<lparr>conn := ConnOpen, connecting := True\<rparr> :: 64 Connector) =
     (None, configured\<lparr>conn := ConnOpen, mid := 1, connecting := True,
        chSend := [[4, 0, 0, 2]], responses := [0 \<mapsto> 7]\<rparr>) \<and>
   read sampleCodecs
       [CallNotify ''chat.say'' [1],
        Recv (Decoded [\<lparr>Packet_Type = packet_Data, Packet_Data = [2, 5, 6]\<rparr>]), Tick]
       (configured\<lparr>conn := ConnOpen, mid := 1, connecting := True,
        chSend := [[4, 0, 0, 2]], responses := [0 \<mapsto> 7]\<rparr> :: 64 Connector) =
     Blocked (configured\<lparr>conn := ConnOpen, mid := 2, connecting := True,
        chSend := [[4, 0, 0, 2], [4, 1, 0, 1]], responses := [0 \<mapsto> 7]\<rparr>) \<and>
   processPacket sampleCodecs \<lparr>Packet_Type = packet_Data, Packet_Data = [2, 0, 8]\<rparr>
       (configured\<lparr>conn := ConnOpen, mid := 2, connecting := True,
        chSend := [[4, 0, 0, 2], [4, 1, 0, 1]], responses := [0 \<mapsto> 7]\<rparr> :: 64 Connector) =
     Running (configured\<lparr>conn := ConnOpen, mid := 2, connecting := True,
        chSend := [[4, 0, 0, 2], [4, 1, 0, 1]], responses := Map.empty,
        calls := [Invoke 7 [8]]\<rparr>) \<and>
   processMessage \<lparr>Message_Type = message_Response, Message_Route = [], Message_ID = 0,
          Message_Data = [8]\<rparr> (configured :: 64 Connector) = Running configured"
proof -
  let ?c = "configured\<lparr>conn := ConnOpen, connecting := True\<rparr> :: 64 Connector"
  let ?c1 = "configured\<lparr>conn := ConnOpen, mid := 1, connecting := True,
        chSend := [[4, 0, 0, 2]], responses := [0 \<mapsto> 7]\<rparr> :: 64 Connector"
  let ?c2 = "configured\<lparr>conn := ConnOpen, mid := 2, connecting := True,
        chSend := [[4, 0, 0, 2], [4, 1, 0, 1]], responses := [0 \<mapsto> 7]\<rparr> :: 64 Connector"
  let ?evs = "[CallNotify ''chat.say'' [1],
        Recv (Decoded [\<lparr>Packet_Type = packet_Data, Packet_Data = [2, 5, 6]\<rparr>]), Tick]"
  let ?pk = "\<lparr>Packet_Type = packet_Data, Packet_Data = [2, 0, 8]\<rparr>"
  let ?msg = "\<lparr>Message_Type = message_Response, Message_Route = ''onMembers'',
      Message_ID = 0 :: 64 word, Message_Data = [8]\<rparr>"
  have 1: "Request sampleCodecs ''room.join'' [2] (Some 7) ?c = (None, ?c1)"
    by (simp add: sample_defs Request_def)
  have 2: "read sampleCodecs ?evs ?c1 = Blocked ?c2"
    by (simp add: sample_defs)
  have 3: "length (filter isSend ?evs) < 2 ^ LENGTH(64) - 1"
    by (simp add: isSend_def)
  have 4: "\<forall>ev\<in>set ?evs. \<not> answerEvent (sampleCodecs :: 64 Codecs) (mid ?c) ev"
    by (simp add: answerEvent_def answers_def sample_defs)
  have 5: "Packet_Type ?pk = packet_Data \<and>
      message_Decode (sampleCodecs :: 64 Codecs) (Packet_Data ?pk) = Inr ?msg"
    by (simp add: sample_defs)
  have 6: "responses (configured :: 64 Connector) 0 = None"
    by (simp add: sample_defs)
  have 7: "mid ?c = 0"
    by (simp add: sample_defs)
  from Response_delivery
    [where c = ?c and env = sampleCodecs and route = "''room.join''" and data = "[2]"
       and cb = 7 and ?c1.0 = ?c1 and evs = ?evs and ?c2.0 = ?c2 and r = "''onMembers''"
       and p = "[8]"] 1 2 3 4 7
  have a: "processMessage ?msg ?c2 =
      Running (?c2\<lparr>calls := calls ?c2 @ [Invoke 7 [8]], responses := (responses ?c2)(0 := None)\<rparr>)"
    by simp
  from Response_delivery [where c = ?c2 and env = sampleCodecs and pk = ?pk and msg = ?msg] 5
  have b: "processPacket sampleCodecs ?pk ?c2 = processMessage ?msg ?c2"
    by blast
  from Response_delivery
    [where c = "configured :: 64 Connector" and i = 0 and r = "[]" and p = "[8]"] 6
  have c: "processMessage \<lparr>Message_Type = message_Response, Message_Route = [], Message_ID = 0,
          Message_Data = [8]\<rparr> (configured :: 64 Connector) = Running configured"
    by blast
  from a b have "processPacket sampleCodecs ?pk ?c2 =
     Running (configured\<lparr>conn := ConnOpen, mid := 2, connecting := True,
        chSend := [[4, 0, 0, 2], [4, 1, 0, 1]], responses := Map.empty,
        calls := [Invoke 7 [8]]\<rparr>)"
    by (simp add: sample_defs)
  with 1 2 c show ?thesis by blast
qed

end
